theory Spec2Isabelle
  imports Main "HOL-Library.AList"
begin

section \<open>Go values used by the half-duplex proxy\<close>

text \<open>
  Payloads are byte slices; a \<open>char\<close> is one byte. Go's \<open>error\<close> interface is a datatype
  with one constructor for each kind of error the proxy tells apart:
  \<open>*websocket.CloseError\<close> (fields Code and Text), the sentinel \<open>websocket.ErrCloseSent\<close>,
  a \<open>net.Error\<close> (with the answer of its \<open>Temporary()\<close> method), the sentinel
  \<open>common.ErrConnectionNotEstablished\<close>, and any other error.
\<close>

type_synonym bytes = string

datatype go_error =
    CloseError int string
  | ErrCloseSent
  | NetError bool string
  | ErrConnectionNotEstablished
  | OtherError string

datatype panic = NilPointerDereference | CloseOfNilChannel | CloseOfClosedChannel

text \<open>Constants of the websocket package (RFC 6455) and of net/http that the source names.\<close>

definition TextMessage :: int where "TextMessage = 1"
definition BinaryMessage :: int where "BinaryMessage = 2"
definition CloseMessage :: int where "CloseMessage = 8"
definition PingMessage :: int where "PingMessage = 9"
definition PongMessage :: int where "PongMessage = 10"
definition CloseNormalClosure :: int where "CloseNormalClosure = 1000"
definition CloseNoStatusReceived :: int where "CloseNoStatusReceived = 1005"
definition StatusInternalServerError :: int where "StatusInternalServerError = 500"
definition StatusServiceUnavailable :: int where "StatusServiceUnavailable = 503"
definition time_Second :: int where "time_Second = 1000000000"

text \<open>
  Functions of the Go standard library and of the websocket library that the source calls
  and whose code is not part of this repository. They are parameters of the model:
  \<open>http.CanonicalHeaderKey\<close>, \<open>net.SplitHostPort\<close> (\<open>None\<close> when it returns an error),
  \<open>websocket.FormatCloseMessage\<close>, the \<open>Error()\<close> text of an error (what
  \<open>fmt.Sprintf("%v", err)\<close> prints) and \<open>http.StatusText\<close>.
\<close>

record lib =
  CanonicalHeaderKey :: "string \<Rightarrow> string"
  SplitHostPort :: "string \<Rightarrow> (string \<times> string) option"
  FormatCloseMessage :: "int \<Rightarrow> string \<Rightarrow> bytes"
  ErrorText :: "go_error \<Rightarrow> string"
  StatusText :: "int \<Rightarrow> string"

section \<open>Calls to the outside\<close>

text \<open>
  A connection is known by its identity. What the proxy does to the world (its two
  connections, the error channels, the embedder's Viewer and Manager, the dialer and the
  upgrader) is recorded as the list of the calls it makes, in order.
\<close>

type_synonym conn = nat

type_synonym Header = "(string \<times> string list) list"

record URL =
  Scheme :: string
  Opaque :: string
  User :: "string option"
  Host :: string
  Path :: string
  RawPath :: string
  OmitHost :: bool
  ForceQuery :: bool
  RawQuery :: string
  Fragment :: string
  RawFragment :: string

datatype dialer = DefaultDialer | CustomDialer nat

datatype upgrader = DefaultUpgrader | CustomUpgrader nat

datatype call =
    ReadMessage conn "go_error + int \<times> bytes"
  | WriteMessage conn int bytes
  | WriteControl conn int bytes int
  | Close conn
  | ChanSend go_error
  | HandleMessage bytes
  | Dial dialer URL Header
  | Upgrade upgrader Header
  | SetPingHandler conn conn
  | Go_replicateWebsocketClientToProxy conn conn "nat option"
  | Go_replicateWebsocketProxyToServer conn conn "nat option"
  | RemoveConnection nat string

section \<open>The relay loops\<close>

text \<open>
  What the world answers during one iteration of a loop: whether \<open>stopChan\<close> is ready when
  the \<open>select\<close> is evaluated (a closed channel is ready, an open or nil one is not, and then
  the \<open>default\<close> branch runs), the result of \<open>src.ReadMessage()\<close>, the result of the
  \<open>dst.WriteMessage\<close> that forwards a message, and whether the handler's \<open>select\<close> has
  taken the buffered error out of \<open>errc\<close> by the time this iteration sends.
  When the answers run out the loop is waiting in \<open>ReadMessage\<close>.
\<close>

record iter_env =
  stop_ready :: bool
  read_result :: "go_error + int \<times> bytes"
  write_result :: "go_error option"
  errc_received :: bool

datatype loop_end = Waiting | Returned | Exited | BlockedOnSend

text \<open>
  \<open>errc\<close> is made with \<open>make(chan error, 1)\<close>: a send completes when the one slot of the
  buffer is free and blocks otherwise. The buffer is the list of errors not yet received.
\<close>

definition chan_send :: "bool \<Rightarrow> go_error list \<Rightarrow> go_error \<Rightarrow> go_error list option" where
  "chan_send received buf err =
     (let buf' = (if received then tl buf else buf)
      in if length buf' < 1 then Some (buf' @ [err]) else None)"

text \<open>
  The close frame built on a read failure (lines 247 to 252 and 285 to 290):
  \<^verbatim>\<open>
  m := websocket.FormatCloseMessage(websocket.CloseNormalClosure, fmt.Sprintf("%v", err))
  if e, ok := err.(*websocket.CloseError); ok {
      if e.Code != websocket.CloseNoStatusReceived {
          m = websocket.FormatCloseMessage(e.Code, e.Text)
      }
  }
  \<close>
\<close>

definition closeFrame :: "lib \<Rightarrow> go_error \<Rightarrow> bytes" where
  "closeFrame L err =
     (let m = FormatCloseMessage L CloseNormalClosure (ErrorText L err)
      in case err of
           CloseError code text \<Rightarrow>
             (if code \<noteq> CloseNoStatusReceived then FormatCloseMessage L code text else m)
         | _ \<Rightarrow> m)"

text \<open>
  The forward loop, client to backend (lines 235 to 271). In Go a \<open>break\<close> inside a
  \<open>select\<close> leaves the \<open>select\<close>, not the enclosing \<open>for\<close>: after a read failure
  \<open>doExit\<close> is still false and the loop goes round again. A write failure sets
  \<open>doExit\<close> and the loop ends. A ready \<open>stopChan\<close> makes the function return.
\<close>

fun replicateWebsocketProxyToServer ::
  "lib \<Rightarrow> conn \<Rightarrow> conn \<Rightarrow> go_error list \<Rightarrow> iter_env list \<Rightarrow> call list \<times> loop_end" where
  "replicateWebsocketProxyToServer L dst src errc [] = ([], Waiting)"
| "replicateWebsocketProxyToServer L dst src errc (e # es) =
     (if stop_ready e then ([WriteMessage dst CloseMessage ''Closed by proxy''], Returned)
      else case read_result e of
        Inl err \<Rightarrow>
          (case chan_send (errc_received e) errc err of
             None \<Rightarrow> ([ReadMessage src (Inl err)], BlockedOnSend)
           | Some errc' \<Rightarrow>
               apfst (\<lambda>tr. ReadMessage src (Inl err) # ChanSend err
                              # WriteMessage dst CloseMessage (closeFrame L err) # tr)
                 (replicateWebsocketProxyToServer L dst src errc' es))
      | Inr (msgType, msg) \<Rightarrow>
          (case write_result e of
             Some werr \<Rightarrow>
               (case chan_send (errc_received e) errc werr of
                  None \<Rightarrow>
                    ([ReadMessage src (Inr (msgType, msg)), WriteMessage dst msgType msg],
                     BlockedOnSend)
                | Some errc' \<Rightarrow>
                    ([ReadMessage src (Inr (msgType, msg)), WriteMessage dst msgType msg,
                      ChanSend werr], Exited))
           | None \<Rightarrow>
               apfst (\<lambda>tr. ReadMessage src (Inr (msgType, msg)) # WriteMessage dst msgType msg # tr)
                 (replicateWebsocketProxyToServer L dst src errc es)))"

text \<open>
  The intercept loop, backend to application (lines 273 to 308). \<open>viewer\<close> is
  \<open>w.Viewer\<close>, \<open>None\<close> for nil. A message that was read is given to the Viewer when its
  type is 1 and a Viewer is set, and the loop goes on; nothing is written to \<open>dst\<close> for it.
\<close>

fun replicateWebsocketClientToProxy ::
  "lib \<Rightarrow> nat option \<Rightarrow> conn \<Rightarrow> conn \<Rightarrow> go_error list \<Rightarrow> iter_env list
     \<Rightarrow> call list \<times> loop_end" where
  "replicateWebsocketClientToProxy L viewer dst src errc [] = ([], Waiting)"
| "replicateWebsocketClientToProxy L viewer dst src errc (e # es) =
     (if stop_ready e then ([WriteMessage dst CloseMessage ''Closed by proxy''], Returned)
      else case read_result e of
        Inl err \<Rightarrow>
          (case chan_send (errc_received e) errc err of
             None \<Rightarrow> ([ReadMessage src (Inl err)], BlockedOnSend)
           | Some errc' \<Rightarrow>
               apfst (\<lambda>tr. ReadMessage src (Inl err) # ChanSend err
                              # WriteMessage dst CloseMessage (closeFrame L err) # tr)
                 (replicateWebsocketClientToProxy L viewer dst src errc' es))
      | Inr (msgType, msg) \<Rightarrow>
          apfst (\<lambda>tr. ReadMessage src (Inr (msgType, msg))
                         # (if msgType = 1 \<and> viewer \<noteq> None then [HandleMessage msg] else []) @ tr)
            (replicateWebsocketClientToProxy L viewer dst src errc es))"

section \<open>HTTP headers, requests and responses\<close>

text \<open>
  \<open>http.Header\<close> is a map from keys to lists of values, kept as an association list with
  one entry for each key; the order of the entries is an order in which \<open>range\<close> may visit
  them. \<open>Get\<close>, \<open>Set\<close>, \<open>Add\<close> and \<open>Del\<close> canonicalise the key they are given; indexing
  (\<open>h[key]\<close>) does not, and gives the empty slice for a key that is absent. A nil header and
  an empty one are both \<open>[]\<close>.
\<close>

definition Header_index :: "Header \<Rightarrow> string \<Rightarrow> string list" where
  "Header_index h key = (case map_of h key of None \<Rightarrow> [] | Some vs \<Rightarrow> vs)"

definition Header_Get :: "lib \<Rightarrow> Header \<Rightarrow> string \<Rightarrow> string" where
  "Header_Get L h key =
     (case Header_index h (CanonicalHeaderKey L key) of [] \<Rightarrow> '''' | v # _ \<Rightarrow> v)"

definition Header_Set :: "lib \<Rightarrow> string \<Rightarrow> string \<Rightarrow> Header \<Rightarrow> Header" where
  "Header_Set L key v h = AList.update (CanonicalHeaderKey L key) [v] h"

definition Header_Add :: "lib \<Rightarrow> string \<Rightarrow> string \<Rightarrow> Header \<Rightarrow> Header" where
  "Header_Add L key v h =
     AList.update (CanonicalHeaderKey L key)
       (Header_index h (CanonicalHeaderKey L key) @ [v]) h"

definition Header_Del :: "lib \<Rightarrow> string \<Rightarrow> Header \<Rightarrow> Header" where
  "Header_Del L key h = AList.delete (CanonicalHeaderKey L key) h"

definition Header_Clone :: "Header \<Rightarrow> Header" where
  "Header_Clone h = h"

fun strings_Join :: "string list \<Rightarrow> string \<Rightarrow> string" where
  "strings_Join [] sep = ''''"
| "strings_Join [x] sep = x"
| "strings_Join (x # y # zs) sep = x @ sep @ strings_Join (y # zs) sep"

text \<open>
  The fields of \<open>*http.Request\<close> and \<open>*http.Response\<close> that the handler reads;
  \<open>req_TLS\<close> says whether \<open>req.TLS\<close> is non-nil.
\<close>

record request =
  req_Header :: Header
  req_Host :: string
  req_RemoteAddr :: string
  req_TLS :: bool
  req_URL :: URL

record response =
  resp_StatusCode :: int
  resp_Header :: Header
  resp_Body :: bytes

text \<open>
  The \<open>http.ResponseWriter\<close>: the header map that \<open>rw.Header()\<close> returns, and what has
  been done to it: a call of \<open>http.Error\<close>, of \<open>WriteHeader\<close>, or bytes written to the body.
\<close>

datatype rw_call = http_Error string int | WriteHeader int | Write bytes

record ResponseWriter =
  rw_Header :: Header
  rw_calls :: "rw_call list"

section \<open>The proxy\<close>

text \<open>
  Modelled from the spec: the declarations of \<open>common.ProxyOptions\<close>,
  \<open>common.WebsocketProxy\<close> and \<open>HalfDuplexWebsocketProxy\<close> are not among the sources.
  The fields are those the code reads and writes, as section 3 of the spec lists them: the
  identifier, the backend URL, the natural-tunnel flag, the five collaborators, the backend
  function, the two owned connections, the connected flag and the two stop signals.

  \<open>options.Url\<close> is a \<open>*url.URL\<close> (the backend function returns it as one): a pointer into
  the heap of URL objects, \<open>None\<close> for nil. A channel is a pointer as well, \<open>None\<close> for
  nil, and the channel heap says which channels are closed. A Director is the change that
  its \<open>AdjustHeaders\<close> makes to the header set it is given.
\<close>

type_synonym url_heap = "nat \<Rightarrow> URL"

type_synonym chan_heap = "nat \<Rightarrow> bool"

type_synonym director = "request \<Rightarrow> Header \<Rightarrow> Header"

type_synonym backend_fn = "request \<Rightarrow> url_heap \<Rightarrow> panic + url_heap \<times> nat option"

record ProxyOptions =
  UniqueID :: string
  Url :: "nat option"
  NaturalTunnel :: bool
  opt_Director :: "director option"
  opt_Viewer :: "nat option"
  opt_Manager :: "nat option"
  opt_Upgrader :: "upgrader option"
  opt_Dialer :: "dialer option"

record HalfDuplexWebsocketProxy =
  UniqueId :: string
  Director :: "director option"
  Viewer :: "nat option"
  Manager :: "nat option"
  Upgrader :: "upgrader option"
  Dialer :: "dialer option"
  Backend :: "backend_fn option"
  Options :: ProxyOptions
  Connected :: bool
  ToBackend :: "conn option"
  ToClient :: "conn option"
  StopClientChan :: "nat option"
  StopBackendChan :: "nat option"

text \<open>
  The backend function of \<open>NewProxy\<close> (lines 26 to 33). \<open>u := options.Url\<close> copies the
  pointer, so the three assignments write into the configured URL object; with a nil
  \<open>options.Url\<close> the first assignment panics.
\<close>

definition backend :: "ProxyOptions \<Rightarrow> backend_fn" where
  "backend options r urls =
     (case Url options of
        None \<Rightarrow> Inl NilPointerDereference
      | Some u \<Rightarrow>
          Inr (urls(u := (urls u)\<lparr>Fragment := Fragment (req_URL r),
                                  Path := Path (req_URL r),
                                  RawQuery := RawQuery (req_URL r)\<rparr>),
               Some u))"

definition NewProxy :: "ProxyOptions \<Rightarrow> HalfDuplexWebsocketProxy" where
  "NewProxy options =
     \<lparr>UniqueId = UniqueID options,
      Director = opt_Director options,
      Viewer = opt_Viewer options,
      Manager = opt_Manager options,
      Upgrader = opt_Upgrader options,
      Dialer = opt_Dialer options,
      Backend = Some (backend options),
      Options = options,
      Connected = False,
      ToBackend = None,
      ToClient = None,
      StopClientChan = None,
      StopBackendChan = None\<rparr>"

section \<open>ServeHTTP\<close>

text \<open>
  The names that natural-tunnel mode deletes from the cloned header set, in the order of
  the eleven \<open>Del\<close> calls (lines 86 to 98, and again lines 189 to 201).
\<close>

definition strippedHeaders :: "string list" where
  "strippedHeaders =
     [''Connection'', ''Sec-Websocket-Extensions'', ''Sec-Websocket-Key'',
      ''Sec-Websocket-Version'', ''Upgrade'',
      ''Keep-Alive'', ''Transfer-Encoding'', ''TE'', ''Trailer'',
      ''Proxy-Authorization'', ''Proxy-Authenticate'']"

definition cloneAndStrip :: "lib \<Rightarrow> Header \<Rightarrow> Header" where
  "cloneAndStrip L h = fold (Header_Del L) strippedHeaders (Header_Clone h)"

text \<open>The allow-listed copy of default mode (lines 101 to 117).\<close>

definition defaultRequestHeader :: "lib \<Rightarrow> request \<Rightarrow> Header" where
  "defaultRequestHeader L req =
     (let h0 = [];
          h1 = (let origin = Header_Get L (req_Header req) ''User-Agent''
                in if origin \<noteq> '''' then Header_Add L ''User-Agent'' origin h0 else h0);
          h2 = (let origin = Header_Get L (req_Header req) ''Origin''
                in if origin \<noteq> '''' then Header_Add L ''Origin'' origin h1 else h1);
          h3 = fold (\<lambda>prot. Header_Add L ''Sec-WebSocket-Protocol'' prot)
                 (Header_index (req_Header req) (CanonicalHeaderKey L ''Sec-WebSocket-Protocol'')) h2;
          h4 = fold (\<lambda>cookie. Header_Add L ''Cookie'' cookie)
                 (Header_index (req_Header req) (CanonicalHeaderKey L ''Cookie'')) h3
      in if req_Host req \<noteq> '''' then Header_Set L ''Host'' (req_Host req) h4 else h4)"

text \<open>
  The header set given to the dialer (lines 73 to 145): the mode's header set, then
  X-Forwarded-For, X-Forwarded-Proto, then the Director.
\<close>

definition requestHeader :: "lib \<Rightarrow> HalfDuplexWebsocketProxy \<Rightarrow> request \<Rightarrow> Header" where
  "requestHeader L w req =
     (let h0 = (if NaturalTunnel (Options w) then cloneAndStrip L (req_Header req)
                else defaultRequestHeader L req);
          h1 = (case SplitHostPort L (req_RemoteAddr req) of
                  Some (clientIP, port) \<Rightarrow>
                    Header_Set L ''X-Forwarded-For''
                      (case map_of (req_Header req) ''X-Forwarded-For'' of
                         Some prior \<Rightarrow> strings_Join prior '', '' @ '', '' @ clientIP
                       | None \<Rightarrow> clientIP) h0
                | None \<Rightarrow> h0);
          h2 = Header_Set L ''X-Forwarded-Proto'' ''http'' h1;
          h3 = (if req_TLS req then Header_Set L ''X-Forwarded-Proto'' ''https'' h2 else h2)
      in case Director w of Some d \<Rightarrow> d req h3 | None \<Rightarrow> h3)"

text \<open>
  The header set given to the upgrader (lines 176 to 218). In natural-tunnel mode
  \<open>upgradeHeader := req.Header.Clone()\<close> declares a new variable inside the block: the
  clone is stripped and dropped, and the \<open>upgradeHeader\<close> of line 176, which reaches
  \<open>Upgrade\<close>, is still nil.
\<close>

definition upgradeHeader :: "lib \<Rightarrow> HalfDuplexWebsocketProxy \<Rightarrow> request \<Rightarrow> response \<Rightarrow> Header" where
  "upgradeHeader L w req resp =
     (if NaturalTunnel (Options w)
      then (let upgradeHeader' = cloneAndStrip L (req_Header req) in [])
      else
        (let h0 = [];
             h1 = (let hdr = Header_Get L (resp_Header resp) ''Sec-Websocket-Protocol''
                   in if hdr \<noteq> '''' then Header_Set L ''Sec-Websocket-Protocol'' hdr h0 else h0);
             h2 = (let hdr = Header_Get L (resp_Header resp) ''Set-Cookie''
                   in if hdr \<noteq> '''' then Header_Set L ''Set-Cookie'' hdr h1 else h1)
         in (let hdr = Header_Get L (resp_Header resp) ''Sec-Websocket-Accept''
             in if hdr \<noteq> '''' then Header_Set L ''Sec-Websocket-Accept'' hdr h2 else h2)))"

text \<open>
  \<open>copyHeader\<close> and \<open>copyResponse\<close> (lines 393 to 408). \<open>io.Copy\<close> writes the whole body,
  or fails after some bytes; \<open>copyResponse\<close> returns its error.
\<close>

definition copyHeader :: "lib \<Rightarrow> Header \<Rightarrow> Header \<Rightarrow> Header" where
  "copyHeader L dst src = fold (\<lambda>(k, vv) d. fold (\<lambda>v d'. Header_Add L k v d') vv d) src dst"

definition copyResponse ::
  "lib \<Rightarrow> (nat \<times> go_error) option \<Rightarrow> ResponseWriter \<Rightarrow> response
     \<Rightarrow> ResponseWriter \<times> go_error option" where
  "copyResponse L copy_answer rw resp =
     (rw\<lparr>rw_Header := copyHeader L (rw_Header rw) (resp_Header resp),
         rw_calls := rw_calls rw @
           [WriteHeader (resp_StatusCode resp),
            Write (case copy_answer of None \<Rightarrow> resp_Body resp
                   | Some (n, err) \<Rightarrow> take n (resp_Body resp))]\<rparr>,
      map_option snd copy_answer)"

text \<open>
  What the world answers to one run of the handler: the result of \<open>dialer.Dial\<close>, the
  result of \<open>upgrader.Upgrade\<close>, the outcome of \<open>io.Copy\<close>, and the first error that the
  handler's \<open>select\<close> receives (with \<open>True\<close> when it comes from \<open>errClient\<close>), \<open>None\<close>
  when neither loop ever reports one.
\<close>

datatype dial_result = DialOK conn response | DialFailed go_error "response option"

record serve_env =
  dial_answer :: dial_result
  upgrade_answer :: "go_error + conn"
  copy_answer :: "(nat \<times> go_error) option"
  first_error :: "(bool \<times> go_error) option"

text \<open>
  Where the handler stops: at one of its five \<open>return\<close>s, waiting in the final
  \<open>select\<close>, or in a panic of the backend function.
\<close>

datatype exit =
    NoBackend | NilBackendURL | DialError | UpgradeError | SessionEnded
  | WaitingForError | Panicked panic

record serve_result =
  res_proxy :: HalfDuplexWebsocketProxy
  res_writer :: ResponseWriter
  res_urls :: url_heap
  res_calls :: "call list"
  res_exit :: exit

definition ServeHTTP ::
  "lib \<Rightarrow> serve_env \<Rightarrow> HalfDuplexWebsocketProxy \<Rightarrow> url_heap \<Rightarrow> ResponseWriter \<Rightarrow> request
     \<Rightarrow> serve_result" where
  "ServeHTTP L env w urls rw req =
     (case Backend w of
        None \<Rightarrow>
          \<lparr>res_proxy = w,
           res_writer = rw\<lparr>rw_calls := rw_calls rw @
             [http_Error ''internal server error (code: 1)'' StatusInternalServerError]\<rparr>,
           res_urls = urls, res_calls = [], res_exit = NoBackend\<rparr>
      | Some backendFn \<Rightarrow>
       (case backendFn req urls of
          Inl p \<Rightarrow>
            \<lparr>res_proxy = w, res_writer = rw, res_urls = urls, res_calls = [],
             res_exit = Panicked p\<rparr>
        | Inr (urls', None) \<Rightarrow>
            \<lparr>res_proxy = w,
             res_writer = rw\<lparr>rw_calls := rw_calls rw @
               [http_Error ''internal server error (code: 2)'' StatusInternalServerError]\<rparr>,
             res_urls = urls', res_calls = [], res_exit = NilBackendURL\<rparr>
        | Inr (urls', Some backendURL) \<Rightarrow>
           (let dialer = (case Dialer w of None \<Rightarrow> DefaultDialer | Some d \<Rightarrow> d);
                calls1 = [Dial dialer (urls' backendURL) (requestHeader L w req)]
            in case dial_answer env of
                 DialFailed err None \<Rightarrow>
                   \<lparr>res_proxy = w,
                    res_writer = rw\<lparr>rw_calls := rw_calls rw @
                      [http_Error (StatusText L StatusServiceUnavailable)
                         StatusServiceUnavailable]\<rparr>,
                    res_urls = urls', res_calls = calls1, res_exit = DialError\<rparr>
               | DialFailed err (Some resp) \<Rightarrow>
                   \<lparr>res_proxy = w,
                    res_writer = fst (copyResponse L (copy_answer env) rw resp),
                    res_urls = urls', res_calls = calls1, res_exit = DialError\<rparr>
               | DialOK connBackend resp \<Rightarrow>
                  (let upgrader = (case Upgrader w of None \<Rightarrow> DefaultUpgrader | Some u \<Rightarrow> u);
                       calls2 = calls1 @ [Upgrade upgrader (upgradeHeader L w req resp)]
                   in case upgrade_answer env of
                        Inl err \<Rightarrow>
                          \<lparr>res_proxy = w, res_writer = rw, res_urls = urls',
                           res_calls = calls2, res_exit = UpgradeError\<rparr>
                      | Inr connPub \<Rightarrow>
                         (let w1 = w\<lparr>ToBackend := Some connBackend, ToClient := Some connPub\<rparr>;
                              w2 = w1\<lparr>Connected := True\<rparr>;
                              calls3 = calls2 @
                                [SetPingHandler connPub connBackend,
                                 Go_replicateWebsocketClientToProxy connPub connBackend
                                   (StopClientChan w2),
                                 Go_replicateWebsocketProxyToServer connBackend connPub
                                   (StopBackendChan w2)]
                          in case first_error env of
                               None \<Rightarrow>
                                 \<lparr>res_proxy = w2, res_writer = rw, res_urls = urls',
                                  res_calls = calls3, res_exit = WaitingForError\<rparr>
                             | Some (fromClient, err) \<Rightarrow>
                                 \<lparr>res_proxy = w2\<lparr>Connected := False\<rparr>,
                                  res_writer = rw, res_urls = urls',
                                  res_calls = calls3 @
                                    (case Manager w2 of
                                       Some m \<Rightarrow>
                                         (if length (UniqueId w2) > 0
                                          then [RemoveConnection m (UniqueId w2)] else [])
                                     | None \<Rightarrow> []),
                                  res_exit = SessionEnded\<rparr>)))))"

text \<open>
  The ping handler installed on the client connection (lines 314 to 328), with the two
  readings of the clock and the results of the two \<open>WriteControl\<close> calls.
\<close>

definition pingHandler ::
  "conn \<Rightarrow> conn \<Rightarrow> string \<Rightarrow> int \<Rightarrow> int \<Rightarrow> go_error option \<Rightarrow> go_error option
     \<Rightarrow> call list \<times> go_error option" where
  "pingHandler connBackend connPub appData now1 now2 ping_result pong_result =
     (case ping_result of
        Some err \<Rightarrow> ([WriteControl connBackend PingMessage appData (now1 + time_Second)], Some err)
      | None \<Rightarrow>
          ([WriteControl connBackend PingMessage appData (now1 + time_Second),
            WriteControl connPub PongMessage appData (now2 + time_Second)],
           (if pong_result = Some ErrCloseSent then None
            else case pong_result of
                   Some (NetError temporary text) \<Rightarrow>
                     (if temporary then None else pong_result)
                 | _ \<Rightarrow> pong_result)))"

section \<open>The session API\<close>

text \<open>
  \<open>SendMessageByType\<close> (lines 360 to 371), given the result of \<open>WriteMessage\<close>;
  \<open>IsConnected\<close>; \<open>CloseProxy\<close> (lines 379 to 391). In Go, closing a nil channel and
  closing a closed channel both panic; what \<open>CloseProxy\<close> did before the panic stays done.
\<close>

definition SendMessageByType ::
  "HalfDuplexWebsocketProxy \<Rightarrow> int \<Rightarrow> bytes \<Rightarrow> go_error option
     \<Rightarrow> call list \<times> go_error option" where
  "SendMessageByType w msgType data write_answer =
     (case ToClient w of
        None \<Rightarrow> ([], Some ErrConnectionNotEstablished)
      | Some c \<Rightarrow> ([WriteMessage c msgType data], write_answer))"

definition IsConnected :: "HalfDuplexWebsocketProxy \<Rightarrow> bool" where
  "IsConnected w = Connected w"

definition close_chan :: "nat option \<Rightarrow> chan_heap \<Rightarrow> panic + chan_heap" where
  "close_chan ch closed =
     (case ch of
        None \<Rightarrow> Inl CloseOfNilChannel
      | Some c \<Rightarrow> (if closed c then Inl CloseOfClosedChannel else Inr (closed(c := True))))"

record close_result =
  cl_proxy :: HalfDuplexWebsocketProxy
  cl_chans :: chan_heap
  cl_calls :: "call list"
  cl_panic :: "panic option"

definition CloseProxy :: "HalfDuplexWebsocketProxy \<Rightarrow> chan_heap \<Rightarrow> close_result" where
  "CloseProxy w closed =
     (let (w1, calls1) = (case ToBackend w of
                            Some c \<Rightarrow> (w\<lparr>ToBackend := None\<rparr>, [Close c])
                          | None \<Rightarrow> (w, []));
          (w2, calls2) = (case ToClient w1 of
                            Some c \<Rightarrow> (w1\<lparr>ToClient := None\<rparr>, calls1 @ [Close c])
                          | None \<Rightarrow> (w1, calls1))
      in case close_chan (StopBackendChan w2) closed of
           Inl p \<Rightarrow> \<lparr>cl_proxy = w2, cl_chans = closed, cl_calls = calls2, cl_panic = Some p\<rparr>
         | Inr closed1 \<Rightarrow>
            (case close_chan (StopClientChan w2) closed1 of
               Inl p \<Rightarrow>
                 \<lparr>cl_proxy = w2, cl_chans = closed1, cl_calls = calls2, cl_panic = Some p\<rparr>
             | Inr closed2 \<Rightarrow>
                 \<lparr>cl_proxy = w2, cl_chans = closed2, cl_calls = calls2, cl_panic = None\<rparr>))"

section \<open>A library instance for concrete runs\<close>

text \<open>
  To run the model on concrete inputs the library parameters need values. These agree with
  the Go libraries on the inputs used below: the two keys of the source that are not
  already canonical, a host:port address without brackets, a close payload that is empty
  for code 1005 and otherwise the code in two bytes followed by the text.
\<close>

definition go_lib :: lib where
  "go_lib =
     \<lparr>CanonicalHeaderKey = (\<lambda>s. if s = ''TE'' then ''Te''
                                else if s = ''Sec-WebSocket-Protocol''
                                then ''Sec-Websocket-Protocol'' else s),
      SplitHostPort = (\<lambda>s. if CHR '':'' \<in> set s
                           then Some (takeWhile (\<lambda>c. c \<noteq> CHR '':'') s,
                                      tl (dropWhile (\<lambda>c. c \<noteq> CHR '':'') s))
                           else None),
      FormatCloseMessage = (\<lambda>code text. if code = 1005 then []
                              else char_of (code div 256) # char_of (code mod 256) # text),
      ErrorText = (\<lambda>err. case err of
                      CloseError code text \<Rightarrow> ''websocket: close '' @ text
                    | ErrCloseSent \<Rightarrow> ''websocket: close sent''
                    | NetError temporary text \<Rightarrow> text
                    | ErrConnectionNotEstablished \<Rightarrow> ''connection not established''
                    | OtherError text \<Rightarrow> text),
      StatusText = (\<lambda>code. if code = 503 then ''Service Unavailable'' else '''')\<rparr>"

text \<open>
  Sample inputs: a backend URL object at address 0 of the heap, options for natural-tunnel
  mode that point to it, an upgrade request for \<open>/chat?a=1\<close> from \<open>10.0.0.7:51234\<close>, a
  fresh response writer, the backend's answers 101 and 401, and the answers of a session
  in which the dial and the upgrade succeed and the client then closes.
\<close>

definition backendURL0 :: URL where
  "backendURL0 =
     \<lparr>Scheme = ''ws'', Opaque = '''', User = None, Host = ''backend:3000'', Path = ''/base'',
      RawPath = '''', OmitHost = False, ForceQuery = False, RawQuery = '''',
      Fragment = '''', RawFragment = ''''\<rparr>"

definition urls0 :: url_heap where
  "urls0 = (\<lambda>p. backendURL0)"

definition options0 :: ProxyOptions where
  "options0 =
     \<lparr>UniqueID = ''session-1'', Url = Some 0, NaturalTunnel = True,
      opt_Director = None, opt_Viewer = Some 0, opt_Manager = Some 0,
      opt_Upgrader = None, opt_Dialer = None\<rparr>"

definition request0 :: request where
  "request0 =
     \<lparr>req_Header = [(''Authorization'', [''Bearer t'']),
                    (''Connection'', [''Upgrade'']),
                    (''Sec-Websocket-Key'', [''a2V5'']),
                    (''Sec-Websocket-Protocol'', [''chat'']),
                    (''Upgrade'', [''websocket''])],
      req_Host = ''proxy.example'',
      req_RemoteAddr = ''10.0.0.7:51234'',
      req_TLS = False,
      req_URL = \<lparr>Scheme = '''', Opaque = '''', User = None, Host = '''', Path = ''/chat'',
                  RawPath = '''', OmitHost = False, ForceQuery = False, RawQuery = ''a=1'',
                  Fragment = '''', RawFragment = ''''\<rparr>\<rparr>"

definition rw0 :: ResponseWriter where
  "rw0 = \<lparr>rw_Header = [], rw_calls = []\<rparr>"

definition response101 :: response where
  "response101 =
     \<lparr>resp_StatusCode = 101,
      resp_Header = [(''Sec-Websocket-Accept'', [''YWNjZXB0'']), (''Sec-Websocket-Protocol'', [''chat''])],
      resp_Body = ''''\<rparr>"

definition response401 :: response where
  "response401 =
     \<lparr>resp_StatusCode = 401,
      resp_Header = [(''Content-Type'', [''text/plain'']), (''Www-Authenticate'', [''Basic'', ''Bearer''])],
      resp_Body = ''denied''\<rparr>"

definition session_env :: serve_env where
  "session_env =
     \<lparr>dial_answer = DialOK 7 response101, upgrade_answer = Inr 8, copy_answer = None,
      first_error = Some (False, CloseError 1000 ''bye'')\<rparr>"

definition rejecting_env :: serve_env where
  "rejecting_env =
     \<lparr>dial_answer = DialFailed (OtherError ''websocket: bad handshake'') (Some response401),
      upgrade_answer = Inr 8, copy_answer = None, first_error = None\<rparr>"

definition established_proxy :: HalfDuplexWebsocketProxy where
  "established_proxy =
     (NewProxy options0)\<lparr>ToBackend := Some 7, ToClient := Some 8,
                          StopClientChan := Some 1, StopBackendChan := Some 2\<rparr>"

section \<open>Properties of the relay loops\<close>

text \<open>
  C2. Every message that the forward loop reads from the client is written next to the
  backend, with the same type and the same payload: in the record of the loop's calls, a
  successful \<open>ReadMessage\<close> on the client is followed at once by \<open>WriteMessage\<close> on the
  backend with what was read, so the messages go out in the order they came in and each
  one before the next read.
\<close>

theorem forward_loop_relays_in_order:
  "fst (replicateWebsocketProxyToServer L dst src errc script)
     = pre @ ReadMessage src (Inr (t, p)) # post
   \<Longrightarrow> \<exists>post'. post = WriteMessage dst t p # post'"
proof (induction script arbitrary: errc pre)
  case Nil
  then show ?case by simp
next
  case (Cons e es)
  show ?case
  proof (cases "stop_ready e")
    case True
    with Cons.prems show ?thesis
      by (auto simp: Cons_eq_append_conv)
  next
    case False
    show ?thesis
    proof (cases "read_result e")
      case (Inl err)
      with False Cons.prems Cons.IH show ?thesis
        by (auto simp: Cons_eq_append_conv split: option.splits)
    next
      case (Inr m)
      obtain mt msg where m: "m = (mt, msg)" by (cases m)
      with Inr False Cons.prems Cons.IH show ?thesis
        by (auto simp: Cons_eq_append_conv split: option.splits)
    qed
  qed
qed

theorem forward_loop_relays_in_order_witness:
  "fst (replicateWebsocketProxyToServer go_lib 1 2 []
          [\<lparr>stop_ready = False, read_result = Inr (1, ''ping-data''),
            write_result = None, errc_received = False\<rparr>])
     = [] @ ReadMessage 2 (Inr (1, ''ping-data'')) # [WriteMessage 1 1 ''ping-data'']
   \<and> (\<exists>post'. [WriteMessage 1 1 ''ping-data''] = WriteMessage 1 1 ''ping-data'' # post')"
proof -
  have h: "fst (replicateWebsocketProxyToServer go_lib 1 2 []
          [\<lparr>stop_ready = False, read_result = Inr (1, ''ping-data''),
            write_result = None, errc_received = False\<rparr>])
     = [] @ ReadMessage 2 (Inr (1, ''ping-data'')) # [WriteMessage 1 1 ''ping-data'']"
    by simp
  show ?thesis using h forward_loop_relays_in_order [OF h] by simp
qed

subsection \<open>Read failures in the forward loop\<close>

lemma forward_after_failure:
  "replicateWebsocketProxyToServer L dst src errc script = (tr, fin)
   \<Longrightarrow> tr = pre @ ReadMessage src (Inl err) # post
   \<Longrightarrow> post = [] \<and> fin = BlockedOnSend
       \<or> (\<exists>post'. post = ChanSend err # WriteMessage dst CloseMessage (closeFrame L err) # post')"
proof (induction script arbitrary: errc pre tr)
  case Nil
  then show ?case by simp
next
  case (Cons e es)
  show ?case
  proof (cases "stop_ready e")
    case True
    with Cons.prems show ?thesis
      by (auto simp: Cons_eq_append_conv)
  next
    case False
    show ?thesis
    proof (cases "read_result e")
      case (Inl err')
      with False Cons.prems Cons.IH show ?thesis
        by (cases "replicateWebsocketProxyToServer L dst src (the (chan_send (errc_received e) errc err')) es")
           (auto simp: Cons_eq_append_conv split: option.splits)
    next
      case (Inr m)
      obtain mt msg where m: "m = (mt, msg)" by (cases m)
      with Inr False Cons.prems Cons.IH show ?thesis
        by (cases "replicateWebsocketProxyToServer L dst src errc es")
           (auto simp: Cons_eq_append_conv split: option.splits)
    qed
  qed
qed

lemma chan_send_empty: "chan_send received [] err = Some [err]"
  by (simp add: chan_send_def)

lemma forward_first_failure:
  "fst (replicateWebsocketProxyToServer L dst src [] script) = pre @ ReadMessage src (Inl err) # post
   \<Longrightarrow> \<forall>x. ReadMessage src (Inl x) \<notin> set pre
   \<Longrightarrow> \<exists>post'. post = ChanSend err # WriteMessage dst CloseMessage (closeFrame L err) # post'"
proof (induction script arbitrary: pre)
  case Nil
  then show ?case by simp
next
  case (Cons e es)
  show ?case
  proof (cases "stop_ready e")
    case True
    with Cons.prems show ?thesis
      by (auto simp: Cons_eq_append_conv)
  next
    case False
    show ?thesis
    proof (cases "read_result e")
      case (Inl err')
      with False Cons.prems show ?thesis
        by (auto simp: Cons_eq_append_conv chan_send_empty split: option.splits)
    next
      case (Inr m)
      obtain mt msg where m: "m = (mt, msg)" by (cases m)
      with Inr False Cons.prems Cons.IH show ?thesis
        by (auto simp: Cons_eq_append_conv chan_send_empty split: option.splits)
    qed
  qed
qed

text \<open>
  C4, as stated, fails twice. The client closes without a status: \<open>ReadMessage\<close> fails
  with the structured close error of code 1005, and the frame written to the backend is
  not built from that code and reason but from code 1000 and the error text (the guard of
  line 249). And the loop does not terminate: \<open>break\<close> leaves the \<open>select\<close> only, and the
  loop reads the client again (here the second send finds the channel full and blocks).
\<close>

theorem forward_loop_rereads_after_failure:
  "replicateWebsocketProxyToServer go_lib 1 2 []
     [\<lparr>stop_ready = False, read_result = Inl (CloseError 1005 ''''),
       write_result = None, errc_received = False\<rparr>,
      \<lparr>stop_ready = False, read_result = Inl (CloseError 1005 ''''),
       write_result = None, errc_received = False\<rparr>]
   = ([ReadMessage 2 (Inl (CloseError 1005 '''')), ChanSend (CloseError 1005 ''''),
       WriteMessage 1 CloseMessage
         (FormatCloseMessage go_lib CloseNormalClosure (ErrorText go_lib (CloseError 1005 ''''))),
       ReadMessage 2 (Inl (CloseError 1005 ''''))], BlockedOnSend)
   \<and> FormatCloseMessage go_lib CloseNormalClosure (ErrorText go_lib (CloseError 1005 ''''))
       \<noteq> FormatCloseMessage go_lib 1005 ''''"
  by (simp add: chan_send_def closeFrame_def CloseNoStatusReceived_def CloseNormalClosure_def go_lib_def)

text \<open>
  C4, amended. For every read failure in the forward loop, the loop reports the read
  error on its error channel and then, unless that send blocks on a full channel, writes
  to the backend a close frame; for the first read failure of a loop started on an empty
  channel the send never blocks. The close frame has the close code and reason of a
  structured close error whose code is not 1005 (no status received), and otherwise the
  normal-closure code with the error text.
\<close>

theorem forward_loop_read_failure:
  assumes "replicateWebsocketProxyToServer L dst src errc script = (tr, fin)"
    and "tr = pre @ ReadMessage src (Inl err) # post"
  shows "(post = [] \<and> fin = BlockedOnSend
          \<or> (\<exists>post'. post = ChanSend err
                # WriteMessage dst CloseMessage (closeFrame L err) # post'))
       \<and> (errc = [] \<and> (\<forall>x. ReadMessage src (Inl x) \<notin> set pre) \<longrightarrow>
            (\<exists>post'. post = ChanSend err
                # WriteMessage dst CloseMessage (closeFrame L err) # post'))
       \<and> closeFrame L err =
            (case err of
               CloseError code text \<Rightarrow>
                 (if code \<noteq> CloseNoStatusReceived then FormatCloseMessage L code text
                  else FormatCloseMessage L CloseNormalClosure (ErrorText L err))
             | _ \<Rightarrow> FormatCloseMessage L CloseNormalClosure (ErrorText L err))"
proof (intro conjI impI)
  show "post = [] \<and> fin = BlockedOnSend
        \<or> (\<exists>post'. post = ChanSend err
              # WriteMessage dst CloseMessage (closeFrame L err) # post')"
    using assms by (rule forward_after_failure)
next
  assume fresh: "errc = [] \<and> (\<forall>x. ReadMessage src (Inl x) \<notin> set pre)"
  from assms have "fst (replicateWebsocketProxyToServer L dst src [] script)
                     = pre @ ReadMessage src (Inl err) # post"
    using fresh by simp
  moreover from fresh have "\<forall>x. ReadMessage src (Inl x) \<notin> set pre"
    by simp
  ultimately show "\<exists>post'. post = ChanSend err
               # WriteMessage dst CloseMessage (closeFrame L err) # post'"
    by (rule forward_first_failure)
next
  show "closeFrame L err =
          (case err of
             CloseError code text \<Rightarrow>
               (if code \<noteq> CloseNoStatusReceived then FormatCloseMessage L code text
                else FormatCloseMessage L CloseNormalClosure (ErrorText L err))
           | _ \<Rightarrow> FormatCloseMessage L CloseNormalClosure (ErrorText L err))"
    by (simp add: closeFrame_def split: go_error.splits)
qed

theorem forward_loop_read_failure_witness:
  "replicateWebsocketProxyToServer go_lib 1 2 []
     [\<lparr>stop_ready = False, read_result = Inr (TextMessage, ''hello''),
       write_result = None, errc_received = False\<rparr>,
      \<lparr>stop_ready = False, read_result = Inl (CloseError 1001 ''going away''),
       write_result = None, errc_received = False\<rparr>]
   = ([ReadMessage 2 (Inr (TextMessage, ''hello'')), WriteMessage 1 TextMessage ''hello'']
        @ ReadMessage 2 (Inl (CloseError 1001 ''going away''))
        # [ChanSend (CloseError 1001 ''going away''),
           WriteMessage 1 CloseMessage (FormatCloseMessage go_lib 1001 ''going away'')],
      Waiting)
   \<and> ([] = ([]::go_error list)
      \<and> (\<forall>x. ReadMessage 2 (Inl x) \<notin> set [ReadMessage 2 (Inr (TextMessage, ''hello'')),
                                              WriteMessage 1 TextMessage ''hello'']))
   \<and> closeFrame go_lib (CloseError 1001 ''going away'')
       = FormatCloseMessage go_lib 1001 ''going away''"
proof -
  let ?script = "[\<lparr>stop_ready = False, read_result = Inr (TextMessage, ''hello''),
       write_result = None, errc_received = False\<rparr>,
      \<lparr>stop_ready = False, read_result = Inl (CloseError 1001 ''going away''),
       write_result = None, errc_received = False\<rparr>]"
  let ?pre = "[ReadMessage 2 (Inr (TextMessage, ''hello'')), WriteMessage 1 TextMessage ''hello'']"
  let ?post = "[ChanSend (CloseError 1001 ''going away''),
           WriteMessage 1 CloseMessage (FormatCloseMessage go_lib 1001 ''going away'')]"
  let ?tr = "?pre @ ReadMessage 2 (Inl (CloseError 1001 ''going away'')) # ?post"
  have cf: "closeFrame go_lib (CloseError 1001 ''going away'')
              = FormatCloseMessage go_lib 1001 ''going away''"
    by (simp add: closeFrame_def CloseNoStatusReceived_def)
  have h: "replicateWebsocketProxyToServer go_lib 1 2 [] ?script = (?tr, Waiting)"
    by (simp add: chan_send_def cf)
  have fresh: "\<forall>x. ReadMessage 2 (Inl x) \<notin> set ?pre"
    by simp
  from forward_loop_read_failure [OF h refl]
  have "closeFrame go_lib (CloseError 1001 ''going away'')
          = (if (1001::int) \<noteq> CloseNoStatusReceived
             then FormatCloseMessage go_lib 1001 ''going away''
             else FormatCloseMessage go_lib CloseNormalClosure
                    (ErrorText go_lib (CloseError 1001 ''going away'')))"
    by simp
  then have "closeFrame go_lib (CloseError 1001 ''going away'')
          = FormatCloseMessage go_lib 1001 ''going away''"
    by (simp add: CloseNoStatusReceived_def)
  with h fresh show ?thesis
    by blast
qed


subsection \<open>The intercept loop\<close>

lemma snoc_under_cons:
  "(\<exists>pre'. pre = pre' @ s) \<Longrightarrow> (\<exists>pre'. a # pre = pre' @ s)"
  by (metis append_Cons)

lemma intercept_first_call:
  "fst (replicateWebsocketClientToProxy L viewer dst src errc script) \<noteq> HandleMessage q # rest"
  by (cases script) (auto split: sum.splits option.splits)

lemma intercept_after_read:
  "fst (replicateWebsocketClientToProxy L viewer dst src errc script)
     = pre @ ReadMessage src (Inr (t, p)) # post
   \<Longrightarrow> (if t = 1 \<and> viewer \<noteq> None then \<exists>post'. post = HandleMessage p # post'
          else \<forall>q post'. post \<noteq> HandleMessage q # post')"
proof (induction script arbitrary: errc pre)
  case Nil
  then show ?case by simp
next
  case (Cons e es)
  show ?case
  proof (cases "stop_ready e")
    case True
    with Cons.prems show ?thesis
      by (auto simp: Cons_eq_append_conv)
  next
    case False
    show ?thesis
    proof (cases "read_result e")
      case (Inl err)
      with False Cons.prems Cons.IH show ?thesis
        by (auto simp: Cons_eq_append_conv split: option.splits)
    next
      case (Inr m)
      obtain mt msg where m: "m = (mt, msg)" by (cases m)
      with Inr False Cons.prems Cons.IH intercept_first_call show ?thesis
        by (auto simp: Cons_eq_append_conv split: if_splits)
    qed
  qed
qed

lemma intercept_writes:
  "fst (replicateWebsocketClientToProxy L viewer dst src errc script)
     = pre @ WriteMessage c t q # post
   \<Longrightarrow> c = dst \<and> t = CloseMessage \<and>
       (q = ''Closed by proxy'' \<and> post = []
        \<or> (\<exists>err. q = closeFrame L err
               \<and> (\<exists>pre'. pre = pre' @ [ReadMessage src (Inl err), ChanSend err])))"
proof (induction script arbitrary: errc pre)
  case Nil
  then show ?case by simp
next
  case (Cons e es)
  show ?case
  proof (cases "stop_ready e")
    case True
    with Cons.prems show ?thesis
      by (auto simp: Cons_eq_append_conv)
  next
    case False
    show ?thesis
    proof (cases "read_result e")
      case (Inl err)
      with False Cons.prems Cons.IH show ?thesis
        by (auto simp: Cons_eq_append_conv split: option.splits intro!: snoc_under_cons)
    next
      case (Inr m)
      obtain mt msg where m: "m = (mt, msg)" by (cases m)
      with Inr False Cons.prems Cons.IH show ?thesis
        by (auto simp: Cons_eq_append_conv split: if_splits intro!: snoc_under_cons)
    qed
  qed
qed

lemma intercept_viewer_calls:
  "fst (replicateWebsocketClientToProxy L viewer dst src errc script)
     = pre @ HandleMessage q # post
   \<Longrightarrow> viewer \<noteq> None \<and> (\<exists>pre'. pre = pre' @ [ReadMessage src (Inr (1, q))])"
proof (induction script arbitrary: errc pre)
  case Nil
  then show ?case by simp
next
  case (Cons e es)
  show ?case
  proof (cases "stop_ready e")
    case True
    with Cons.prems show ?thesis
      by (auto simp: Cons_eq_append_conv)
  next
    case False
    show ?thesis
    proof (cases "read_result e")
      case (Inl err)
      with False Cons.prems Cons.IH show ?thesis
        by (auto simp: Cons_eq_append_conv split: option.splits intro: snoc_under_cons)
    next
      case (Inr m)
      obtain mt msg where m: "m = (mt, msg)" by (cases m)
      with Inr False Cons.prems Cons.IH show ?thesis
        by (auto simp: Cons_eq_append_conv split: if_splits intro: snoc_under_cons)
    qed
  qed
qed

text \<open>
  C1, as stated, fails: the claim hands every message read from the backend to the Viewer
  when one is configured. With a Viewer set, a binary message (type 2) is read and the
  Viewer is not called.
\<close>

theorem intercept_loop_binary_not_viewed:
  "replicateWebsocketClientToProxy go_lib (Some 0) 1 2 []
     [\<lparr>stop_ready = False, read_result = Inr (BinaryMessage, ''raw''),
       write_result = None, errc_received = False\<rparr>]
   = ([ReadMessage 2 (Inr (BinaryMessage, ''raw''))], Waiting)
   \<and> HandleMessage ''raw'' \<notin> set (fst (replicateWebsocketClientToProxy go_lib (Some 0) 1 2 []
        [\<lparr>stop_ready = False, read_result = Inr (BinaryMessage, ''raw''),
          write_result = None, errc_received = False\<rparr>]))"
  by (simp add: BinaryMessage_def)

text \<open>
  C1, amended. In the record \<open>tr\<close> of the calls of the intercept loop:
  \<^item> a message read from the backend is followed at once by the call of the Viewer with its
    payload when its type is text and a Viewer is configured, and by no call of the Viewer
    otherwise;
  \<^item> every write is to the client connection and is a close frame, either the
    proxy's own (on the stop signal, after which the loop has returned) or the one built
    from the read error that was just reported: no message that was read is written;
  \<^item> the Viewer is called only with the payload of the text message read just before,
    and only when one is configured.
\<close>

theorem intercept_loop_hands_text_to_viewer_only:
  assumes "fst (replicateWebsocketClientToProxy L viewer dst src errc script) = tr"
  shows "(\<forall>pre t p post. tr = pre @ ReadMessage src (Inr (t, p)) # post \<longrightarrow>
            (if t = TextMessage \<and> viewer \<noteq> None then \<exists>post'. post = HandleMessage p # post'
             else \<forall>q post'. post \<noteq> HandleMessage q # post'))
       \<and> (\<forall>pre c t q post. tr = pre @ WriteMessage c t q # post \<longrightarrow>
            c = dst \<and> t = CloseMessage \<and>
            (q = ''Closed by proxy'' \<and> post = []
             \<or> (\<exists>err. q = closeFrame L err
                    \<and> (\<exists>pre'. pre = pre' @ [ReadMessage src (Inl err), ChanSend err]))))
       \<and> (\<forall>pre q post. tr = pre @ HandleMessage q # post \<longrightarrow>
            viewer \<noteq> None \<and> (\<exists>pre'. pre = pre' @ [ReadMessage src (Inr (TextMessage, q))]))"
proof (intro conjI allI impI)
  fix pre t p post
  assume "tr = pre @ ReadMessage src (Inr (t, p)) # post"
  with assms intercept_after_read [of L viewer dst src errc script pre t p post]
  show "if t = TextMessage \<and> viewer \<noteq> None then \<exists>post'. post = HandleMessage p # post'
        else \<forall>q post'. post \<noteq> HandleMessage q # post'"
    by (simp add: TextMessage_def)
next
  fix pre c t q post
  assume "tr = pre @ WriteMessage c t q # post"
  with assms intercept_writes [of L viewer dst src errc script pre c t q post]
  show "c = dst" and "t = CloseMessage"
    and "q = ''Closed by proxy'' \<and> post = []
         \<or> (\<exists>err. q = closeFrame L err
                \<and> (\<exists>pre'. pre = pre' @ [ReadMessage src (Inl err), ChanSend err]))"
    by simp_all
next
  fix pre q post
  assume "tr = pre @ HandleMessage q # post"
  with assms intercept_viewer_calls [of L viewer dst src errc script pre q post]
  show "viewer \<noteq> None" and "\<exists>pre'. pre = pre' @ [ReadMessage src (Inr (TextMessage, q))]"
    by (simp_all add: TextMessage_def)
qed

theorem intercept_loop_hands_text_to_viewer_only_witness:
  "fst (replicateWebsocketClientToProxy go_lib (Some 0) 1 2 []
          [\<lparr>stop_ready = False, read_result = Inr (TextMessage, ''event-A''),
            write_result = None, errc_received = False\<rparr>,
           \<lparr>stop_ready = False, read_result = Inr (BinaryMessage, ''raw''),
            write_result = None, errc_received = False\<rparr>,
           \<lparr>stop_ready = True, read_result = Inr (TextMessage, ''late''),
            write_result = None, errc_received = False\<rparr>])
     = [ReadMessage 2 (Inr (TextMessage, ''event-A'')), HandleMessage ''event-A'',
        ReadMessage 2 (Inr (BinaryMessage, ''raw'')),
        WriteMessage 1 CloseMessage ''Closed by proxy'']
   \<and> (if TextMessage = TextMessage \<and> Some (0::nat) \<noteq> None
       then \<exists>post'. [HandleMessage ''event-A'', ReadMessage 2 (Inr (BinaryMessage, ''raw'')),
                      WriteMessage 1 CloseMessage ''Closed by proxy''] = HandleMessage ''event-A'' # post'
       else True)
   \<and> (\<forall>q post'. [WriteMessage 1 CloseMessage ''Closed by proxy''] \<noteq> HandleMessage q # post')"
proof -
  let ?tr = "[ReadMessage 2 (Inr (TextMessage, ''event-A'')), HandleMessage ''event-A'',
        ReadMessage 2 (Inr (BinaryMessage, ''raw'')),
        WriteMessage 1 CloseMessage ''Closed by proxy'']"
  have h: "fst (replicateWebsocketClientToProxy go_lib (Some 0) 1 2 []
          [\<lparr>stop_ready = False, read_result = Inr (TextMessage, ''event-A''),
            write_result = None, errc_received = False\<rparr>,
           \<lparr>stop_ready = False, read_result = Inr (BinaryMessage, ''raw''),
            write_result = None, errc_received = False\<rparr>,
           \<lparr>stop_ready = True, read_result = Inr (TextMessage, ''late''),
            write_result = None, errc_received = False\<rparr>]) = ?tr"
    by (simp add: TextMessage_def BinaryMessage_def)
  show ?thesis using h intercept_loop_hands_text_to_viewer_only [OF h] by simp
qed

section \<open>The control-frame bridge\<close>

text \<open>
  C9. The ping handler first writes a ping control frame with the application data it
  was given to the backend, with the deadline one second after the clock reading; if that
  write fails it returns the failure and writes nothing to the client. Otherwise it writes
  a pong with the same application data to the client, one second after the clock
  reading, and returns nil when the pong write fails with \<open>ErrCloseSent\<close> or with a
  temporary network error, and the result of the pong write otherwise.
\<close>

theorem pingHandler_bridges_ping:
  assumes "pingHandler connBackend connPub appData now1 now2 ping_result pong_result = (calls, res)"
  shows "(\<exists>rest. calls = WriteControl connBackend PingMessage appData (now1 + time_Second) # rest)
       \<and> (ping_result \<noteq> None \<longrightarrow>
            res = ping_result
            \<and> calls = [WriteControl connBackend PingMessage appData (now1 + time_Second)])
       \<and> (ping_result = None \<longrightarrow>
            calls = [WriteControl connBackend PingMessage appData (now1 + time_Second),
                     WriteControl connPub PongMessage appData (now2 + time_Second)]
            \<and> res = (if pong_result = Some ErrCloseSent
                        \<or> (\<exists>text. pong_result = Some (NetError True text))
                      then None else pong_result))"
  using assms
  by (auto simp: pingHandler_def split: option.splits go_error.splits if_splits)

theorem pingHandler_bridges_ping_witness:
  "pingHandler 7 8 ''beat'' 5000000000 5000000003 None (Some ErrCloseSent)
     = ([WriteControl 7 PingMessage ''beat'' 6000000000,
         WriteControl 8 PongMessage ''beat'' 6000000003], None)
   \<and> (None::go_error option) =
        (if Some ErrCloseSent = Some ErrCloseSent
            \<or> (\<exists>text. Some ErrCloseSent = Some (NetError True text))
         then None else Some ErrCloseSent)"
proof -
  have h: "pingHandler 7 8 ''beat'' 5000000000 5000000003 None (Some ErrCloseSent)
     = ([WriteControl 7 PingMessage ''beat'' 6000000000,
         WriteControl 8 PongMessage ''beat'' 6000000003], None)"
    by (simp add: pingHandler_def time_Second_def)
  show ?thesis using h pingHandler_bridges_ping [OF h] by simp
qed

section \<open>The backend URL\<close>

text \<open>
  C5. The code breaks the claim: the backend function writes the request's fragment, path
  and raw query into the configured URL object itself. With the backend configured as
  \<open>ws://backend:3000/base\<close> and a request for \<open>/chat?a=1\<close>, the object that
  \<open>options.Url\<close> points to has path \<open>/chat\<close> and query \<open>a=1\<close> after one call, and the
  URL returned is that same object.
\<close>

theorem backend_overwrites_configured_url:
  "backend options0 request0 urls0
     = Inr (urls0(0 := backendURL0\<lparr>Fragment := '''', Path := ''/chat'', RawQuery := ''a=1''\<rparr>),
            Some 0)
   \<and> Path (urls0 0) = ''/base''
   \<and> (case backend options0 request0 urls0 of
         Inr (urls', u) \<Rightarrow> Path (urls' 0) = ''/chat'' \<and> RawQuery (urls' 0) = ''a=1''
                           \<and> urls' 0 \<noteq> urls0 0
       | Inl p \<Rightarrow> False)"
  by (simp add: backend_def options0_def request0_def urls0_def backendURL0_def)

section \<open>Header negotiation\<close>

lemma map_of_fold_Del:
  "map_of (fold (Header_Del L) ns h) k
     = (if k \<in> CanonicalHeaderKey L ` set ns then None else map_of h k)"
  by (induction ns arbitrary: h) (auto simp: Header_Del_def AList.delete_conv')

lemma cloneAndStrip_absent:
  "n \<in> set strippedHeaders \<Longrightarrow> map_of (cloneAndStrip L h) (CanonicalHeaderKey L n) = None"
  by (simp add: cloneAndStrip_def map_of_fold_Del)

lemma cloneAndStrip_kept:
  "k \<notin> CanonicalHeaderKey L ` set strippedHeaders \<Longrightarrow> map_of (cloneAndStrip L h) k = map_of h k"
  by (simp add: cloneAndStrip_def map_of_fold_Del Header_Clone_def)

lemma map_of_Header_Set:
  "map_of (Header_Set L key v h) k = (if k = CanonicalHeaderKey L key then Some [v] else map_of h k)"
  by (simp add: Header_Set_def AList.update_conv')

lemma requestHeader_naturalTunnel_absent:
  assumes "NaturalTunnel (Options w)" and "Director w = None" and "n \<in> set strippedHeaders"
    and "CanonicalHeaderKey L n \<noteq> CanonicalHeaderKey L ''X-Forwarded-For''"
    and "CanonicalHeaderKey L n \<noteq> CanonicalHeaderKey L ''X-Forwarded-Proto''"
  shows "map_of (requestHeader L w req) (CanonicalHeaderKey L n) = None"
  using assms
  by (auto simp: requestHeader_def Let_def map_of_Header_Set cloneAndStrip_absent
           split: option.splits prod.splits)

lemma ServeHTTP_Dial_header:
  "Dial d u h \<in> set (res_calls (ServeHTTP L env w urls rw req)) \<Longrightarrow> h = requestHeader L w req"
  by (auto simp: ServeHTTP_def Let_def split: option.splits sum.splits prod.splits dial_result.splits if_splits)

lemma ServeHTTP_Upgrade_header:
  "Upgrade up h \<in> set (res_calls (ServeHTTP L env w urls rw req))
   \<Longrightarrow> \<exists>c resp. dial_answer env = DialOK c resp \<and> h = upgradeHeader L w req resp"
  by (auto simp: ServeHTTP_def Let_def split: option.splits sum.splits prod.splits dial_result.splits if_splits)

text \<open>
  A whole run of the handler on the sample request in natural-tunnel mode: the dial and
  the upgrade succeed and the client then closes.
\<close>

lemma session_run:
  "ServeHTTP go_lib session_env (NewProxy options0) urls0 rw0 request0
   = \<lparr>res_proxy = (NewProxy options0)\<lparr>ToBackend := Some 7, ToClient := Some 8, Connected := False\<rparr>,
      res_writer = rw0,
      res_urls = urls0(0 := backendURL0\<lparr>Fragment := '''', Path := ''/chat'', RawQuery := ''a=1''\<rparr>),
      res_calls =
        [Dial DefaultDialer (backendURL0\<lparr>Fragment := '''', Path := ''/chat'', RawQuery := ''a=1''\<rparr>)
           [(''Authorization'', [''Bearer t'']), (''Sec-Websocket-Protocol'', [''chat'']),
            (''X-Forwarded-For'', [''10.0.0.7'']), (''X-Forwarded-Proto'', [''http''])],
         Upgrade DefaultUpgrader [],
         SetPingHandler 8 7,
         Go_replicateWebsocketClientToProxy 8 7 None,
         Go_replicateWebsocketProxyToServer 7 8 None,
         RemoveConnection 0 ''session-1''],
      res_exit = SessionEnded\<rparr>"
  by (simp add: ServeHTTP_def NewProxy_def options0_def session_env_def backend_def request0_def
     urls0_def backendURL0_def rw0_def requestHeader_def upgradeHeader_def cloneAndStrip_def
     strippedHeaders_def Header_Del_def Header_Set_def Header_Clone_def go_lib_def AList.delete_eq
     response101_def)

text \<open>
  C3, as stated, fails. In natural-tunnel mode the request carries the negotiation header
  Sec-Websocket-Protocol, which is not among the eleven names deleted: the header set
  given to the dialer contains it. And the header set given to the upgrader is nil, not the
  cloned and stripped set, which here holds two entries.
\<close>

theorem naturalTunnel_passes_protocol_header_and_nil_upgrade_header:
  "NaturalTunnel (Options (NewProxy options0))
   \<and> cloneAndStrip go_lib (req_Header request0)
       = [(''Authorization'', [''Bearer t'']), (''Sec-Websocket-Protocol'', [''chat''])]
   \<and> res_calls (ServeHTTP go_lib session_env (NewProxy options0) urls0 rw0 request0)
       = [Dial DefaultDialer (backendURL0\<lparr>Fragment := '''', Path := ''/chat'', RawQuery := ''a=1''\<rparr>)
           [(''Authorization'', [''Bearer t'']), (''Sec-Websocket-Protocol'', [''chat'']),
            (''X-Forwarded-For'', [''10.0.0.7'']), (''X-Forwarded-Proto'', [''http''])],
          Upgrade DefaultUpgrader [],
          SetPingHandler 8 7,
          Go_replicateWebsocketClientToProxy 8 7 None,
          Go_replicateWebsocketProxyToServer 7 8 None,
          RemoveConnection 0 ''session-1'']"
proof -
  have "cloneAndStrip go_lib (req_Header request0)
       = [(''Authorization'', [''Bearer t'']), (''Sec-Websocket-Protocol'', [''chat''])]"
    by (simp add: cloneAndStrip_def strippedHeaders_def Header_Del_def Header_Clone_def
          go_lib_def request0_def AList.delete_eq)
  moreover have "NaturalTunnel (Options (NewProxy options0))"
    by (simp add: NewProxy_def options0_def)
  ultimately show ?thesis
    by (simp add: session_run)
qed

text \<open>
  C3, amended. In natural-tunnel mode, for each of the eleven names \<open>n\<close> that the code
  deletes (Connection, Sec-Websocket-Extensions, Sec-Websocket-Key, Sec-Websocket-Version,
  Upgrade, Keep-Alive, Transfer-Encoding, TE, Trailer, Proxy-Authorization,
  Proxy-Authenticate): the cloned and stripped header set has no entry for \<open>n\<close>; when no
  Director is configured (and the canonical key of \<open>n\<close> is not that of one of the two
  forwarded headers, as is the case in Go), the header set given to the dialer has none;
  and the header set given to the upgrader has none.
\<close>

theorem naturalTunnel_strips_listed_headers:
  assumes "NaturalTunnel (Options w)" and "n \<in> set strippedHeaders"
  shows "map_of (cloneAndStrip L (req_Header req)) (CanonicalHeaderKey L n) = None
       \<and> (Director w = None
            \<and> CanonicalHeaderKey L n \<noteq> CanonicalHeaderKey L ''X-Forwarded-For''
            \<and> CanonicalHeaderKey L n \<noteq> CanonicalHeaderKey L ''X-Forwarded-Proto'' \<longrightarrow>
          (\<forall>d u h. Dial d u h \<in> set (res_calls (ServeHTTP L env w urls rw req)) \<longrightarrow>
             map_of h (CanonicalHeaderKey L n) = None))
       \<and> (\<forall>up h. Upgrade up h \<in> set (res_calls (ServeHTTP L env w urls rw req)) \<longrightarrow>
             map_of h (CanonicalHeaderKey L n) = None)"
proof (intro conjI impI allI)
  show "map_of (cloneAndStrip L (req_Header req)) (CanonicalHeaderKey L n) = None"
    using assms(2) by (rule cloneAndStrip_absent)
next
  fix d u h
  assume nd: "Director w = None
            \<and> CanonicalHeaderKey L n \<noteq> CanonicalHeaderKey L ''X-Forwarded-For''
            \<and> CanonicalHeaderKey L n \<noteq> CanonicalHeaderKey L ''X-Forwarded-Proto''"
    and "Dial d u h \<in> set (res_calls (ServeHTTP L env w urls rw req))"
  then have "h = requestHeader L w req"
    by (auto dest: ServeHTTP_Dial_header)
  with assms nd show "map_of h (CanonicalHeaderKey L n) = None"
    by (simp add: requestHeader_naturalTunnel_absent)
next
  fix up h
  assume "Upgrade up h \<in> set (res_calls (ServeHTTP L env w urls rw req))"
  then obtain c resp where "h = upgradeHeader L w req resp"
    by (auto dest: ServeHTTP_Upgrade_header)
  with assms(1) show "map_of h (CanonicalHeaderKey L n) = None"
    by (simp add: upgradeHeader_def)
qed

theorem naturalTunnel_strips_listed_headers_witness:
  "NaturalTunnel (Options (NewProxy options0))
   \<and> ''Connection'' \<in> set strippedHeaders
   \<and> map_of (req_Header request0) (CanonicalHeaderKey go_lib ''Connection'') = Some [''Upgrade'']
   \<and> map_of (cloneAndStrip go_lib (req_Header request0)) (CanonicalHeaderKey go_lib ''Connection'') = None
   \<and> Director (NewProxy options0) = None
   \<and> Dial DefaultDialer (backendURL0\<lparr>Fragment := '''', Path := ''/chat'', RawQuery := ''a=1''\<rparr>)
        [(''Authorization'', [''Bearer t'']), (''Sec-Websocket-Protocol'', [''chat'']),
         (''X-Forwarded-For'', [''10.0.0.7'']), (''X-Forwarded-Proto'', [''http''])]
       \<in> set (res_calls (ServeHTTP go_lib session_env (NewProxy options0) urls0 rw0 request0))
   \<and> map_of [(''Authorization'', [''Bearer t'']), (''Sec-Websocket-Protocol'', [''chat'']),
              (''X-Forwarded-For'', [''10.0.0.7'']), (''X-Forwarded-Proto'', [''http''])]
         (CanonicalHeaderKey go_lib ''Connection'') = None
   \<and> Upgrade DefaultUpgrader []
       \<in> set (res_calls (ServeHTTP go_lib session_env (NewProxy options0) urls0 rw0 request0))
   \<and> map_of ([]::Header) (CanonicalHeaderKey go_lib ''Connection'') = None"
proof -
  have nt: "NaturalTunnel (Options (NewProxy options0))"
    by (simp add: NewProxy_def options0_def)
  have n: "''Connection'' \<in> set strippedHeaders"
    by (simp add: strippedHeaders_def)
  have nd: "Director (NewProxy options0) = None"
    by (simp add: NewProxy_def options0_def)
  have ck: "CanonicalHeaderKey go_lib ''Connection'' \<noteq> CanonicalHeaderKey go_lib ''X-Forwarded-For''"
    "CanonicalHeaderKey go_lib ''Connection'' \<noteq> CanonicalHeaderKey go_lib ''X-Forwarded-Proto''"
    by (simp_all add: go_lib_def)
  have present: "map_of (req_Header request0) (CanonicalHeaderKey go_lib ''Connection'') = Some [''Upgrade'']"
    by (simp add: request0_def go_lib_def)
  have dial: "Dial DefaultDialer (backendURL0\<lparr>Fragment := '''', Path := ''/chat'', RawQuery := ''a=1''\<rparr>)
        [(''Authorization'', [''Bearer t'']), (''Sec-Websocket-Protocol'', [''chat'']),
         (''X-Forwarded-For'', [''10.0.0.7'']), (''X-Forwarded-Proto'', [''http''])]
       \<in> set (res_calls (ServeHTTP go_lib session_env (NewProxy options0) urls0 rw0 request0))"
    by (simp add: session_run)
  have upgrade: "Upgrade DefaultUpgrader []
       \<in> set (res_calls (ServeHTTP go_lib session_env (NewProxy options0) urls0 rw0 request0))"
    by (simp add: session_run)
  from naturalTunnel_strips_listed_headers [OF nt n, of go_lib request0 session_env urls0 rw0]
  show ?thesis
    using nt n nd ck present dial upgrade by blast
qed

section \<open>Dial failures and missing backends\<close>

lemma Header_index_Add:
  "Header_index (Header_Add L key v h) k
     = (if k = CanonicalHeaderKey L key then Header_index h k @ [v] else Header_index h k)"
  by (simp add: Header_Add_def Header_index_def AList.update_conv')

lemma Header_index_fold_Add:
  "Header_index (fold (\<lambda>v d'. Header_Add L key v d') vv d) k
     = (if k = CanonicalHeaderKey L key then Header_index d k @ vv else Header_index d k)"
  by (induction vv arbitrary: d) (auto simp: Header_index_Add)

lemma Header_index_absent:
  "k \<notin> fst ` set h \<Longrightarrow> Header_index h k = []"
proof -
  assume "k \<notin> fst ` set h"
  then have "map_of h k = None"
    by (simp add: map_of_eq_None_iff)
  then show ?thesis
    by (simp add: Header_index_def)
qed

lemma Header_index_Cons:
  "Header_index ((k', vv) # h) k = (if k = k' then vv else Header_index h k)"
  by (simp add: Header_index_def)

lemma Header_index_copyHeader:
  "distinct (map fst src) \<Longrightarrow> \<forall>k \<in> fst ` set src. CanonicalHeaderKey L k = k
   \<Longrightarrow> Header_index (copyHeader L dst src) k = Header_index dst k @ Header_index src k"
proof (induction src arbitrary: dst)
  case Nil
  then show ?case by (simp add: copyHeader_def Header_index_def)
next
  case (Cons kv src)
  obtain k' vv where kv: "kv = (k', vv)" by (cases kv)
  from Cons.prems kv have ck: "CanonicalHeaderKey L k' = k'" and notin: "k' \<notin> fst ` set src"
    by auto
  have step: "copyHeader L dst (kv # src)
                = copyHeader L (fold (\<lambda>v d'. Header_Add L k' v d') vv dst) src"
    by (simp add: copyHeader_def kv)
  from Cons.prems have "Header_index (copyHeader L (fold (\<lambda>v d'. Header_Add L k' v d') vv dst) src) k
          = Header_index (fold (\<lambda>v d'. Header_Add L k' v d') vv dst) k @ Header_index src k"
    by (intro Cons.IH) auto
  with step ck notin show ?case
    by (auto simp: Header_index_fold_Add kv Header_index_absent Header_index_Cons)
qed

text \<open>
  C7. When the backend function gives a URL and the dial fails: with a handshake response,
  the handler writes the response's status code and then its body to the caller (the
  whole body unless the copy fails part-way), after adding every header value of the
  response to the caller's header map, so that for a response whose keys are canonical the
  values under each key are those of the response, after any already there; with no
  response, the handler calls \<open>http.Error\<close> with the status text of 503 and the code 503.
  In both cases the dial is the only call made, the proxy is unchanged (no connection is
  kept) and the handler returns.
\<close>

theorem ServeHTTP_dial_failure:
  assumes "Backend w = Some f" and "f req urls = Inr (urls', Some u)"
    and "dial_answer env = DialFailed err respo"
  shows "(\<forall>resp. respo = Some resp \<longrightarrow>
            rw_calls (res_writer (ServeHTTP L env w urls rw req))
              = rw_calls rw @ [WriteHeader (resp_StatusCode resp),
                               Write (case copy_answer env of None \<Rightarrow> resp_Body resp
                                      | Some (n, e) \<Rightarrow> take n (resp_Body resp))]
            \<and> (distinct (map fst (resp_Header resp))
                 \<and> (\<forall>k \<in> fst ` set (resp_Header resp). CanonicalHeaderKey L k = k) \<longrightarrow>
               (\<forall>k. Header_index (rw_Header (res_writer (ServeHTTP L env w urls rw req))) k
                      = Header_index (rw_Header rw) k @ Header_index (resp_Header resp) k)))
       \<and> (respo = None \<longrightarrow>
            res_writer (ServeHTTP L env w urls rw req)
              = rw\<lparr>rw_calls := rw_calls rw @ [http_Error (StatusText L 503) 503]\<rparr>)
       \<and> res_proxy (ServeHTTP L env w urls rw req) = w
       \<and> (\<exists>d h. res_calls (ServeHTTP L env w urls rw req) = [Dial d (urls' u) h])
       \<and> res_exit (ServeHTTP L env w urls rw req) = DialError"
  using assms
  by (cases respo)
     (auto simp: ServeHTTP_def Let_def copyResponse_def Header_index_copyHeader
                 StatusServiceUnavailable_def)

theorem ServeHTTP_dial_failure_witness:
  "Backend (NewProxy options0) = Some (backend options0)
   \<and> backend options0 request0 urls0
       = Inr (urls0(0 := backendURL0\<lparr>Fragment := '''', Path := ''/chat'', RawQuery := ''a=1''\<rparr>), Some 0)
   \<and> dial_answer rejecting_env
       = DialFailed (OtherError ''websocket: bad handshake'') (Some response401)
   \<and> distinct (map fst (resp_Header response401))
   \<and> fst ` set (resp_Header response401) = {''Content-Type'', ''Www-Authenticate''}
   \<and> CanonicalHeaderKey go_lib ''Content-Type'' = ''Content-Type''
   \<and> CanonicalHeaderKey go_lib ''Www-Authenticate'' = ''Www-Authenticate''
   \<and> rw_calls (res_writer (ServeHTTP go_lib rejecting_env (NewProxy options0) urls0 rw0 request0))
       = [WriteHeader 401, Write ''denied'']
   \<and> (\<forall>k. Header_index (rw_Header (res_writer
              (ServeHTTP go_lib rejecting_env (NewProxy options0) urls0 rw0 request0))) k
            = Header_index (resp_Header response401) k)
   \<and> res_exit (ServeHTTP go_lib rejecting_env (NewProxy options0) urls0 rw0 request0) = DialError"
proof -
  have b: "Backend (NewProxy options0) = Some (backend options0)"
    by (simp add: NewProxy_def)
  have r: "backend options0 request0 urls0
       = Inr (urls0(0 := backendURL0\<lparr>Fragment := '''', Path := ''/chat'', RawQuery := ''a=1''\<rparr>), Some 0)"
    by (simp add: backend_def options0_def request0_def urls0_def backendURL0_def)
  have d: "dial_answer rejecting_env
       = DialFailed (OtherError ''websocket: bad handshake'') (Some response401)"
    by (simp add: rejecting_env_def)
  have keys: "distinct (map fst (resp_Header response401))"
    "\<forall>k \<in> fst ` set (resp_Header response401). CanonicalHeaderKey go_lib k = k"
    by (simp_all add: response401_def go_lib_def)
  have vals: "resp_StatusCode response401 = 401" "resp_Body response401 = ''denied''"
    "copy_answer rejecting_env = None" "rw_calls rw0 = []" "rw_Header rw0 = []"
    by (simp_all add: response401_def rejecting_env_def rw0_def)
  have empty: "\<And>k. Header_index [] k = []"
    by (simp add: Header_index_def)
  have keys': "fst ` set (resp_Header response401) = {''Content-Type'', ''Www-Authenticate''}"
    "CanonicalHeaderKey go_lib ''Content-Type'' = ''Content-Type''"
    "CanonicalHeaderKey go_lib ''Www-Authenticate'' = ''Www-Authenticate''"
    by (auto simp: response401_def go_lib_def)
  from ServeHTTP_dial_failure [OF b r d, of go_lib rw0] keys vals empty
  have "rw_calls (res_writer (ServeHTTP go_lib rejecting_env (NewProxy options0) urls0 rw0 request0))
       = [WriteHeader 401, Write ''denied'']
   \<and> (\<forall>k. Header_index (rw_Header (res_writer
              (ServeHTTP go_lib rejecting_env (NewProxy options0) urls0 rw0 request0))) k
            = Header_index (resp_Header response401) k)
   \<and> res_exit (ServeHTTP go_lib rejecting_env (NewProxy options0) urls0 rw0 request0) = DialError"
    by simp
  with b r d keys(1) keys' show ?thesis
    by simp
qed

text \<open>
  C8. When the backend function is nil the handler calls \<open>http.Error\<close> with code 500 and
  the message of error code 1; when the backend function returns a nil URL, with code 500
  and the message of error code 2; the two messages differ; in both cases no call is made
  (no dial) and the proxy is unchanged.
\<close>

theorem ServeHTTP_nil_backend_responds_500:
  "(Backend w = None \<longrightarrow>
      res_writer (ServeHTTP L env w urls rw req)
        = rw\<lparr>rw_calls := rw_calls rw @ [http_Error ''internal server error (code: 1)'' 500]\<rparr>
      \<and> res_calls (ServeHTTP L env w urls rw req) = []
      \<and> res_exit (ServeHTTP L env w urls rw req) = NoBackend
      \<and> res_proxy (ServeHTTP L env w urls rw req) = w)
   \<and> (\<forall>f urls'. Backend w = Some f \<and> f req urls = Inr (urls', None) \<longrightarrow>
      res_writer (ServeHTTP L env w urls rw req)
        = rw\<lparr>rw_calls := rw_calls rw @ [http_Error ''internal server error (code: 2)'' 500]\<rparr>
      \<and> res_calls (ServeHTTP L env w urls rw req) = []
      \<and> res_exit (ServeHTTP L env w urls rw req) = NilBackendURL
      \<and> res_proxy (ServeHTTP L env w urls rw req) = w)
   \<and> http_Error ''internal server error (code: 1)'' 500
       \<noteq> http_Error ''internal server error (code: 2)'' 500"
  by (auto simp: ServeHTTP_def StatusInternalServerError_def)

theorem ServeHTTP_nil_backend_responds_500_witness:
  "Backend ((NewProxy options0)\<lparr>Backend := None\<rparr>) = None
   \<and> res_writer (ServeHTTP go_lib session_env ((NewProxy options0)\<lparr>Backend := None\<rparr>) urls0 rw0 request0)
       = rw0\<lparr>rw_calls := rw_calls rw0 @ [http_Error ''internal server error (code: 1)'' 500]\<rparr>
   \<and> res_calls (ServeHTTP go_lib session_env ((NewProxy options0)\<lparr>Backend := None\<rparr>) urls0 rw0 request0) = []
   \<and> Backend ((NewProxy options0)\<lparr>Backend := Some (\<lambda>r urls. Inr (urls, None))\<rparr>)
       = Some (\<lambda>r urls. Inr (urls, None))
   \<and> res_writer (ServeHTTP go_lib session_env
         ((NewProxy options0)\<lparr>Backend := Some (\<lambda>r urls. Inr (urls, None))\<rparr>) urls0 rw0 request0)
       = rw0\<lparr>rw_calls := rw_calls rw0 @ [http_Error ''internal server error (code: 2)'' 500]\<rparr>
   \<and> res_calls (ServeHTTP go_lib session_env
         ((NewProxy options0)\<lparr>Backend := Some (\<lambda>r urls. Inr (urls, None))\<rparr>) urls0 rw0 request0) = []"
proof -
  have n1: "Backend ((NewProxy options0)\<lparr>Backend := None\<rparr>) = None"
    by simp
  have n2: "Backend ((NewProxy options0)\<lparr>Backend := Some (\<lambda>r urls. Inr (urls, None))\<rparr>)
       = Some (\<lambda>r urls. Inr (urls, None))"
    by simp
  from ServeHTTP_nil_backend_responds_500
         [of "(NewProxy options0)\<lparr>Backend := None\<rparr>" go_lib session_env urls0 rw0 request0]
       ServeHTTP_nil_backend_responds_500
         [of "(NewProxy options0)\<lparr>Backend := Some (\<lambda>r urls. Inr (urls, None))\<rparr>"
             go_lib session_env urls0 rw0 request0]
       n1 n2
  show ?thesis
    by auto
qed

section \<open>Closing and sending\<close>

text \<open>
  C6, as stated, fails: on a proxy with both connections and two open stop channels the
  first \<open>CloseProxy\<close> completes and the second panics, closing a closed channel.
\<close>

theorem CloseProxy_second_call_panics:
  "cl_panic (CloseProxy established_proxy (\<lambda>c. False)) = None
   \<and> cl_calls (CloseProxy established_proxy (\<lambda>c. False)) = [Close 7, Close 8]
   \<and> cl_panic (CloseProxy (cl_proxy (CloseProxy established_proxy (\<lambda>c. False)))
                           (cl_chans (CloseProxy established_proxy (\<lambda>c. False))))
       = Some CloseOfClosedChannel"
  by (simp add: CloseProxy_def close_chan_def established_proxy_def NewProxy_def)

text \<open>
  C6, amended. Whatever the state of the proxy, the first \<open>CloseProxy\<close> closes each
  owned connection once and leaves both handles nil, and the second closes no connection;
  the second call then panics at \<open>close(w.StopBackendChan)\<close>, with a closed channel (or a
  nil one).
\<close>

theorem CloseProxy_twice_panics:
  "let r1 = CloseProxy w closed; r2 = CloseProxy (cl_proxy r1) (cl_chans r1)
   in ToBackend (cl_proxy r1) = None \<and> ToClient (cl_proxy r1) = None
      \<and> cl_calls r1 = (case ToBackend w of Some c \<Rightarrow> [Close c] | None \<Rightarrow> [])
                        @ (case ToClient w of Some c \<Rightarrow> [Close c] | None \<Rightarrow> [])
      \<and> cl_calls r2 = []
      \<and> cl_panic r2 = Some (if StopBackendChan w = None then CloseOfNilChannel
                              else CloseOfClosedChannel)"
  by (auto simp: CloseProxy_def close_chan_def Let_def split: option.splits sum.splits if_splits)

text \<open>
  C10. \<open>SendMessageByType\<close> looks at the client handle only: with a nil handle it returns
  \<open>ErrConnectionNotEstablished\<close> and writes nothing; with a handle it writes the message
  to that connection and returns the result of the write. After a session has ended the
  connected flag is false and the handle is still set, so a send is written to the client
  and succeeds when the write does; after \<open>CloseProxy\<close> the handle is nil and the send is
  refused.
\<close>

theorem SendMessageByType_decides_by_handle:
  "(ToClient w = None \<longrightarrow>
      SendMessageByType w t d write_answer = ([], Some ErrConnectionNotEstablished))
   \<and> (\<forall>c. ToClient w = Some c \<longrightarrow>
      SendMessageByType w t d write_answer = ([WriteMessage c t d], write_answer))
   \<and> ((fst (SendMessageByType w t d write_answer) = []) = (ToClient w = None))
   \<and> (res_exit (ServeHTTP L env w0 urls rw req) = SessionEnded \<longrightarrow>
       (let w' = res_proxy (ServeHTTP L env w0 urls rw req)
        in \<not> IsConnected w'
           \<and> (\<exists>c. ToClient w' = Some c
                 \<and> SendMessageByType w' t d None = ([WriteMessage c t d], None))
           \<and> SendMessageByType (cl_proxy (CloseProxy w' closed)) t d write_answer
               = ([], Some ErrConnectionNotEstablished)))"
  by (auto simp: SendMessageByType_def ServeHTTP_def Let_def IsConnected_def CloseProxy_def
           split: option.splits sum.splits prod.splits dial_result.splits if_splits)

theorem SendMessageByType_decides_by_handle_witness:
  "res_exit (ServeHTTP go_lib session_env (NewProxy options0) urls0 rw0 request0) = SessionEnded
   \<and> \<not> IsConnected (res_proxy (ServeHTTP go_lib session_env (NewProxy options0) urls0 rw0 request0))
   \<and> ToClient (res_proxy (ServeHTTP go_lib session_env (NewProxy options0) urls0 rw0 request0)) = Some 8
   \<and> SendMessageByType (res_proxy (ServeHTTP go_lib session_env (NewProxy options0) urls0 rw0 request0))
        TextMessage ''event-A'' None = ([WriteMessage 8 TextMessage ''event-A''], None)
   \<and> ToClient (NewProxy options0) = None
   \<and> SendMessageByType (NewProxy options0) TextMessage ''event-A'' None
       = ([], Some ErrConnectionNotEstablished)"
proof -
  have e: "res_exit (ServeHTTP go_lib session_env (NewProxy options0) urls0 rw0 request0) = SessionEnded"
    by (simp add: session_run)
  have c: "ToClient (res_proxy (ServeHTTP go_lib session_env (NewProxy options0) urls0 rw0 request0)) = Some 8"
    by (simp add: session_run)
  have n: "ToClient (NewProxy options0) = None"
    by (simp add: NewProxy_def)
  from SendMessageByType_decides_by_handle
         [of "res_proxy (ServeHTTP go_lib session_env (NewProxy options0) urls0 rw0 request0)"
             TextMessage "''event-A''" None go_lib session_env "NewProxy options0" urls0 rw0 request0]
       SendMessageByType_decides_by_handle
         [of "NewProxy options0" TextMessage "''event-A''" None]
       e c n
  show ?thesis
    by (auto simp: Let_def)
qed

end
